theory Spec2Isabelle
  imports Main
begin

section \<open>Python values used by the migration tool\<close>

text \<open>
  Exceptions are values.  The handlers of the tool distinguish two classes only:
  \<^verbatim>\<open>socket.error\<close> (an alias of \<^verbatim>\<open>OSError\<close>), of which they read \<^verbatim>\<open>errno\<close>, and every
  other \<^verbatim>\<open>Exception\<close>, of which they read \<^verbatim>\<open>str(e)\<close>.
\<close>

datatype exn =
    OSError "int option" string  \<comment> \<open>errno (None when unset) and message\<close>
  | Exception string             \<comment> \<open>any other Exception, with str(e)\<close>

text \<open>\<^verbatim>\<open>s.startswith(p)\<close> and \<^verbatim>\<open>p in s\<close> on strings.\<close>

fun startswith :: "string \<Rightarrow> string \<Rightarrow> bool" where
  "startswith s [] = True"
| "startswith [] (p # ps) = False"
| "startswith (c # cs) (p # ps) = (c = p \<and> startswith cs ps)"

fun contains :: "string \<Rightarrow> string \<Rightarrow> bool" where
  "contains p [] = (p = [])"
| "contains p (c # cs) = (startswith (c # cs) p \<or> contains p cs)"

text \<open>\<^verbatim>\<open>s.replace(old, new)\<close> for one-character \<^verbatim>\<open>old\<close> and \<^verbatim>\<open>new\<close>.\<close>

definition replace_chr :: "char \<Rightarrow> char \<Rightarrow> string \<Rightarrow> string" where
  "replace_chr old new s = map (\<lambda>c. if c = old then new else c) s"

text \<open>
  \<^verbatim>\<open>b.split()\<close> on bytes: the maximal runs of bytes other than space, tab, newline,
  vertical tab, form feed and carriage return.
\<close>

definition is_space :: "char \<Rightarrow> bool" where
  "is_space c = (c \<in> {CHR '' '', CHR 0x09, CHR 0x0A, CHR 0x0B, CHR 0x0C, CHR 0x0D})"

fun split_acc :: "string \<Rightarrow> string \<Rightarrow> string list" where
  "split_acc cur [] = (if cur = [] then [] else [cur])"
| "split_acc cur (c # cs) =
     (if is_space c then (if cur = [] then split_acc [] cs else cur # split_acc [] cs)
      else split_acc (cur @ [c]) cs)"

definition bytes_split :: "string \<Rightarrow> string list" where
  "bytes_split b = split_acc [] b"

text \<open>
  \<^verbatim>\<open>b.decode()\<close>: UTF-8, strict.  The result is the list of the characters, each with its
  code point and the bytes that encode it, or \<open>None\<close> where Python raises
  \<^verbatim>\<open>UnicodeDecodeError\<close>: a stray or missing continuation byte, an overlong form, a
  surrogate, a code point above U+10FFFF.  A str is kept as such a list; \<open>str_bytes\<close>
  gives its UTF-8 encoding, which stands for the str wherever it is stored or sent.
\<close>

type_synonym pystr = "(nat \<times> string) list"

definition continuation :: "nat \<Rightarrow> nat \<Rightarrow> nat \<Rightarrow> bool" where
  "continuation lo hi b = (lo \<le> b \<and> b \<le> hi)"

fun utf8_chars :: "string \<Rightarrow> pystr option" where
  "utf8_chars [] = Some []"
| "utf8_chars (c0 # cs) =
     (let b0 = (of_char c0 :: nat) in
      if b0 < 0x80 then map_option ((#) (b0, [c0])) (utf8_chars cs)
      else if 0xC2 \<le> b0 \<and> b0 \<le> 0xDF then
        (case cs of
           c1 # r \<Rightarrow>
             (let b1 = (of_char c1 :: nat) in
              if continuation 0x80 0xBF b1 then
                map_option ((#) ((b0 - 0xC0) * 64 + (b1 - 0x80), [c0, c1])) (utf8_chars r)
              else None)
         | [] \<Rightarrow> None)
      else if 0xE0 \<le> b0 \<and> b0 \<le> 0xEF then
        (case cs of
           c1 # c2 # r \<Rightarrow>
             (let b1 = (of_char c1 :: nat); b2 = (of_char c2 :: nat) in
              if continuation (if b0 = 0xE0 then 0xA0 else 0x80) (if b0 = 0xED then 0x9F else 0xBF) b1
                 \<and> continuation 0x80 0xBF b2 then
                map_option
                  ((#) ((b0 - 0xE0) * 4096 + (b1 - 0x80) * 64 + (b2 - 0x80), [c0, c1, c2]))
                  (utf8_chars r)
              else None)
         | _ \<Rightarrow> None)
      else if 0xF0 \<le> b0 \<and> b0 \<le> 0xF4 then
        (case cs of
           c1 # c2 # c3 # r \<Rightarrow>
             (let b1 = (of_char c1 :: nat); b2 = (of_char c2 :: nat); b3 = (of_char c3 :: nat) in
              if continuation (if b0 = 0xF0 then 0x90 else 0x80) (if b0 = 0xF4 then 0x8F else 0xBF) b1
                 \<and> continuation 0x80 0xBF b2 \<and> continuation 0x80 0xBF b3 then
                map_option
                  ((#) ((b0 - 0xF0) * 262144 + (b1 - 0x80) * 4096 + (b2 - 0x80) * 64 + (b3 - 0x80),
                        [c0, c1, c2, c3]))
                  (utf8_chars r)
              else None)
         | _ \<Rightarrow> None)
      else None)"

definition str_bytes :: "pystr \<Rightarrow> string" where
  "str_bytes s = concat (map snd s)"

text \<open>
  \<^verbatim>\<open>s.split()\<close> on a str: the maximal runs of characters that are not whitespace
  (the characters for which \<^verbatim>\<open>str.isspace\<close> holds).
\<close>

definition is_space_cp :: "nat \<Rightarrow> bool" where
  "is_space_cp cp =
     (cp \<in> {0x09, 0x0A, 0x0B, 0x0C, 0x0D, 0x1C, 0x1D, 0x1E, 0x1F, 0x20, 0x85, 0xA0, 0x1680,
             0x2028, 0x2029, 0x202F, 0x205F, 0x3000}
      \<or> (0x2000 \<le> cp \<and> cp \<le> 0x200A))"

fun str_split_acc :: "string \<Rightarrow> pystr \<Rightarrow> string list" where
  "str_split_acc cur [] = (if cur = [] then [] else [cur])"
| "str_split_acc cur (ch # chs) =
     (if is_space_cp (fst ch) then
        (if cur = [] then str_split_acc [] chs else cur # str_split_acc [] chs)
      else str_split_acc (cur @ snd ch) chs)"

definition str_split :: "pystr \<Rightarrow> string list" where
  "str_split s = str_split_acc [] s"

text \<open>
  \<^verbatim>\<open>s.split(sep)\<close> on a str, for a one-character separator: never empty, keeps empty
  parts.
\<close>

fun str_split_sep :: "nat \<Rightarrow> pystr \<Rightarrow> string list" where
  "str_split_sep sep [] = [[]]"
| "str_split_sep sep (ch # chs) =
     (if fst ch = sep then [] # str_split_sep sep chs
      else (case str_split_sep sep chs of [] \<Rightarrow> [snd ch] | p # ps \<Rightarrow> (snd ch @ p) # ps))"

section \<open>Folder name decoding (\<^verbatim>\<open>decode_folder_name\<close>)\<close>

text \<open>
  \<^verbatim>\<open>base64.b64decode\<close> and \<^verbatim>\<open>bytes.decode('utf-16be')\<close> belong to the Python library, not
  to the repository: they are parameters, each returning its bytes or text, or the
  exception it raises.  The \<^verbatim>\<open>try\<close> block is \<open>decode_folder_name_try\<close>; the handler
  \<^verbatim>\<open>except Exception: pass\<close> followed by \<^verbatim>\<open>return raw_encoded_name\<close> is in
  \<open>decode_folder_name\<close>, whose result is \<open>Inr\<close> when the function returns and \<open>Inl\<close>
  when it raises.
\<close>

definition decode_folder_name_try ::
  "(string \<Rightarrow> exn + string) \<Rightarrow> (string \<Rightarrow> exn + string) \<Rightarrow> string \<Rightarrow> exn + string" where
  "decode_folder_name_try b64decode utf16be encoded_name =
     (let n1 = (if startswith encoded_name ''&'' then drop 1 encoded_name else encoded_name);
          n2 = replace_chr CHR '','' CHR ''/'' n1;
          n3 = replace_chr CHR ''-'' CHR ''='' n2;
          padding_length = length n3 mod 4;
          n4 = (if padding_length \<noteq> 0 then n3 @ replicate (4 - padding_length) CHR ''='' else n3)
      in case b64decode n4 of
           Inl e \<Rightarrow> Inl e
         | Inr decoded_bytes \<Rightarrow>
             (case utf16be decoded_bytes of
                Inl e \<Rightarrow> Inl e
              | Inr decoded_text \<Rightarrow> Inr decoded_text))"

definition decode_folder_name ::
  "(string \<Rightarrow> exn + string) \<Rightarrow> (string \<Rightarrow> exn + string) \<Rightarrow> string \<Rightarrow> exn + string" where
  "decode_folder_name b64decode utf16be encoded_name =
     (case decode_folder_name_try b64decode utf16be encoded_name of
        Inr decoded_text \<Rightarrow> Inr decoded_text
      | Inl e \<Rightarrow> Inr encoded_name)"

text \<open>
  The pipeline as the specification words it (FolderNameCodec, decodeDisplayName): strip
  the marker, substitute the two punctuation characters, pad to a multiple of four,
  base64-decode, read as UTF-16 big-endian.
\<close>

definition strip_marker_spec :: "string \<Rightarrow> string" where
  "strip_marker_spec s = (case s of [] \<Rightarrow> [] | c # cs \<Rightarrow> if c = CHR ''&'' then cs else c # cs)"

definition substitute_spec :: "string \<Rightarrow> string" where
  "substitute_spec s =
     map (\<lambda>c. if c = CHR '','' then CHR ''/'' else if c = CHR ''-'' then CHR ''='' else c) s"

definition pad_spec :: "string \<Rightarrow> string" where
  "pad_spec s = s @ replicate ((4 - length s mod 4) mod 4) CHR ''=''"

definition decode_pipeline_spec ::
  "(string \<Rightarrow> exn + string) \<Rightarrow> (string \<Rightarrow> exn + string) \<Rightarrow> string \<Rightarrow> exn + string" where
  "decode_pipeline_spec b64decode utf16be raw =
     (case b64decode (pad_spec (substitute_spec (strip_marker_spec raw))) of
        Inl e \<Rightarrow> Inl e
      | Inr bytes \<Rightarrow> utf16be bytes)"

section \<open>The dedup store (table \<^verbatim>\<open>migrated_messages\<close>)\<close>

text \<open>
  A row is (folder, uid, dest\_email), all TEXT.  The database file either has no such
  table (\<open>None\<close>) or has one with its rows in insertion order.  A statement on a missing
  table raises \<^verbatim>\<open>sqlite3.OperationalError\<close>.
\<close>

type_synonym row = "string \<times> string \<times> string"
type_synonym database = "row list option"

definition no_such_table :: exn where
  "no_such_table = Exception ''no such table: migrated_messages''"

definition row_dest :: "row \<Rightarrow> string" where
  "row_dest r = snd (snd r)"

definition init_db :: "database \<Rightarrow> database" where
  "init_db db = (case db of None \<Rightarrow> Some [] | Some t \<Rightarrow> Some t)"

definition sql_select_uids :: "string \<Rightarrow> string \<Rightarrow> database \<Rightarrow> exn + string list" where
  "sql_select_uids folder dest_email db =
     (case db of
        None \<Rightarrow> Inl no_such_table
      | Some t \<Rightarrow> Inr (map (\<lambda>r. fst (snd r)) (filter (\<lambda>r. fst r = folder \<and> row_dest r = dest_email) t)))"

definition sql_insert_or_ignore :: "row \<Rightarrow> database \<Rightarrow> exn + database" where
  "sql_insert_or_ignore r db =
     (case db of
        None \<Rightarrow> Inl no_such_table
      | Some t \<Rightarrow> Inr (Some (if r \<in> set t then t else t @ [r])))"

text \<open>\<^verbatim>\<open>clear_uids_by_email.delete_rows\<close>: the new database and the lines it logs.\<close>

datatype purge_log =
    RowsBefore string nat
  | DeletedSuccessfully string
  | RowsAfter string nat
  | NoRowsFound string

definition sql_count_dest :: "string \<Rightarrow> row list \<Rightarrow> nat" where
  "sql_count_dest email t = length (filter (\<lambda>r. row_dest r = email) t)"

definition sql_delete_dest :: "string \<Rightarrow> row list \<Rightarrow> row list" where
  "sql_delete_dest email t = filter (\<lambda>r. row_dest r \<noteq> email) t"

definition delete_rows :: "string \<Rightarrow> database \<Rightarrow> exn + (database \<times> purge_log list)" where
  "delete_rows email db =
     (case db of
        None \<Rightarrow> Inl no_such_table
      | Some t \<Rightarrow>
          (let count_before = sql_count_dest email t
           in if count_before > 0 then
                (let t' = sql_delete_dest email t;
                     count_after = sql_count_dest email t'
                 in Inr (Some t', [RowsBefore email count_before, DeletedSuccessfully email,
                                   RowsAfter email count_after]))
              else Inr (Some t, [RowsBefore email count_before, NoRowsFound email])))"

text \<open>
  Histories of the store: it is created by \<open>init_db\<close>, then written, purged, and
  opened again by later runs (each run starts with \<open>init_db\<close>).
\<close>

datatype db_op = Record string string string | Purge string | Reopen

definition apply_db_op :: "database \<Rightarrow> db_op \<Rightarrow> database" where
  "apply_db_op db op =
     (case op of
        Record folder uid dest_email \<Rightarrow>
          (case sql_insert_or_ignore (folder, uid, dest_email) db of Inr db' \<Rightarrow> db' | Inl e \<Rightarrow> db)
      | Purge email \<Rightarrow>
          (case delete_rows email db of Inr (db', logs) \<Rightarrow> db' | Inl e \<Rightarrow> db)
      | Reopen \<Rightarrow> init_db db)"

definition store_history :: "db_op list \<Rightarrow> database" where
  "store_history ops = foldl apply_db_op (init_db None) ops"

section \<open>The IMAP sessions and their environment\<close>

text \<open>
  Every \<^verbatim>\<open>imaplib\<close> command returns a pair (typ, data), where data is a list whose
  items are bytes, a pair of bytes, or None; or it raises.  The tool never reads typ.
\<close>

datatype item = INone | IBytes string | IPair string string

datatype resp = Raise exn | Return string "item list"

datatype cmd =
    Login string string
  | Logout
  | ListFolders
  | Create string
  | Select string
  | Search                    \<comment> \<open>\<^verbatim>\<open>search(None, 'ALL')\<close>\<close>
  | Fetch string string       \<comment> \<open>message number, message parts\<close>
  | Append string string string
      \<comment> \<open>folder, the fetched header line (flags are \<^verbatim>\<open>ParseFlags\<close> of it), body\<close>

text \<open>
  A call to the outside is the constructor \<^verbatim>\<open>IMAP4_SSL(host)\<close> or a command on a session
  object: the event records through which attribute the object was reached
  (\<^verbatim>\<open>self.source\<close> or \<^verbatim>\<open>self.dest\<close>) and its number (objects are numbered as they are
  created).
\<close>

datatype slot = Src | Dst

datatype call = Connect string | Cmd slot nat cmd

datatype level = Info | Warning | Error

datatype logmsg =
    ConnectedSource
  | ConnectedDest
  | ConnectionError exn
  | ReSelected string
  | CreatedFolder string
  | FolderExists string
  | Migrating string nat
  | Skipping string string           \<comment> \<open>uid, folder\<close>
  | FailedAfterAttempts string string
  | ErrorMigratingFolder string exn
  | Migrated string string
  | ConnectionReset string nat nat   \<comment> \<open>uid, attempt + 1, retries\<close>
  | SocketError string exn
  | AttemptFailed nat nat string exn \<comment> \<open>attempt + 1, retries, uid, e\<close>
  | AttemptReconnect
  | FinalFailure string exn
  | MigrationCompleted

text \<open>
  \<^verbatim>\<open>time.sleep\<close> is called at two places: the fixed pause of \<^verbatim>\<open>reconnect\<close> and the
  backoff of \<^verbatim>\<open>migrate_message\<close>.  \<open>Stored\<close> marks the committed
  \<^verbatim>\<open>INSERT OR IGNORE\<close> of \<^verbatim>\<open>store_migrated_uid\<close>.
\<close>

datatype sleep_site = ReconnectPause | Backoff

datatype event =
    Ext call resp
  | Sleep sleep_site nat
  | Log level logmsg
  | Stored row

text \<open>
  The servers, the network and \<^verbatim>\<open>imaplib\<close> are the environment: it answers each call,
  knowing everything that happened before.
\<close>

type_synonym env = "event list \<Rightarrow> call \<Rightarrow> resp"

record config =
  source_host :: string
  source_user :: string
  source_pass :: string
  dest_host :: string
  dest_user :: string
  dest_pass :: string

record state =
  self_source :: "nat option"
  self_dest :: "nat option"
  db_file :: database
  trace :: "event list"
  sessions :: nat    \<comment> \<open>number of session objects created so far\<close>

text \<open>\<^verbatim>\<open>IMAPMigration.__init__\<close>: no sessions, and \<open>init_db\<close> on the database file.\<close>

definition new_migration :: "database \<Rightarrow> state" where
  "new_migration file =
     \<lparr>self_source = None, self_dest = None, db_file = init_db file, trace = [], sessions = 0\<rparr>"

definition emit :: "event \<Rightarrow> state \<Rightarrow> state" where
  "emit ev st = st\<lparr>trace := trace st @ [ev]\<rparr>"

definition log :: "level \<Rightarrow> logmsg \<Rightarrow> state \<Rightarrow> state" where
  "log lvl m st = emit (Log lvl m) st"

definition sleep :: "sleep_site \<Rightarrow> nat \<Rightarrow> state \<Rightarrow> state" where
  "sleep site n st = emit (Sleep site n) st"

definition ext :: "env \<Rightarrow> call \<Rightarrow> state \<Rightarrow> resp \<times> state" where
  "ext E c st = (let r = E (trace st) c in (r, emit (Ext c r) st))"

definition session_of :: "slot \<Rightarrow> state \<Rightarrow> nat option" where
  "session_of sl st = (case sl of Src \<Rightarrow> self_source st | Dst \<Rightarrow> self_dest st)"

text \<open>A method call on \<^verbatim>\<open>self.source\<close> or \<^verbatim>\<open>self.dest\<close>; on None it is an AttributeError.\<close>

definition session_call :: "env \<Rightarrow> slot \<Rightarrow> cmd \<Rightarrow> state \<Rightarrow> resp \<times> state" where
  "session_call E sl c st =
     (case session_of sl st of
        None \<Rightarrow> (Raise (Exception ''NoneType object has no attribute''), st)
      | Some sid \<Rightarrow> ext E (Cmd sl sid c) st)"

definition open_ssl :: "env \<Rightarrow> string \<Rightarrow> state \<Rightarrow> (exn + nat) \<times> state" where
  "open_ssl E host st =
     (case ext E (Connect host) st of
        (Raise e, st1) \<Rightarrow> (Inl e, st1)
      | (Return typ dat, st1) \<Rightarrow> (Inr (sessions st1), st1\<lparr>sessions := Suc (sessions st1)\<rparr>))"

definition connect :: "env \<Rightarrow> config \<Rightarrow> state \<Rightarrow> bool \<times> state" where
  "connect E C st =
     (case open_ssl E (source_host C) st of
        (Inl e, st1) \<Rightarrow> (False, log Error (ConnectionError e) st1)
      | (Inr s, st1) \<Rightarrow>
          (case ext E (Cmd Src s (Login (source_user C) (source_pass C))) (st1\<lparr>self_source := Some s\<rparr>) of
             (Raise e, st2) \<Rightarrow> (False, log Error (ConnectionError e) st2)
           | (Return typ dat, st2) \<Rightarrow>
               (case open_ssl E (dest_host C) (log Info ConnectedSource st2) of
                  (Inl e, st3) \<Rightarrow> (False, log Error (ConnectionError e) st3)
                | (Inr d, st3) \<Rightarrow>
                    (case ext E (Cmd Dst d (Login (dest_user C) (dest_pass C))) (st3\<lparr>self_dest := Some d\<rparr>) of
                       (Raise e, st4) \<Rightarrow> (False, log Error (ConnectionError e) st4)
                     | (Return typ' dat', st4) \<Rightarrow> (True, log Info ConnectedDest st4)))))"

text \<open>The two logouts of \<^verbatim>\<open>reconnect\<close>, inside \<^verbatim>\<open>try ... except: pass\<close>.\<close>

definition logout_dest_ignoring :: "env \<Rightarrow> state \<Rightarrow> state" where
  "logout_dest_ignoring E st =
     (case self_dest st of None \<Rightarrow> st | Some d \<Rightarrow> snd (ext E (Cmd Dst d Logout) st))"

definition logout_both_ignoring :: "env \<Rightarrow> state \<Rightarrow> state" where
  "logout_both_ignoring E st =
     (case self_source st of
        None \<Rightarrow> logout_dest_ignoring E st
      | Some s \<Rightarrow>
          (case ext E (Cmd Src s Logout) st of
             (Raise e, st1) \<Rightarrow> st1
           | (Return typ dat, st1) \<Rightarrow> logout_dest_ignoring E st1))"

definition reconnect :: "env \<Rightarrow> config \<Rightarrow> string option \<Rightarrow> state \<Rightarrow> (exn + bool) \<times> state" where
  "reconnect E C folder st =
     (case connect E C (sleep ReconnectPause 1 (logout_both_ignoring E st)) of
        (False, st1) \<Rightarrow> (Inr False, st1)
      | (True, st1) \<Rightarrow>
          (case folder of
             None \<Rightarrow> (Inr True, st1)
           | Some f \<Rightarrow>
               if f = [] then (Inr True, st1)
               else (case session_call E Src (Select f) st1 of
                       (Raise e, st2) \<Rightarrow> (Inl e, st2)
                     | (Return typ dat, st2) \<Rightarrow> (Inr True, log Info (ReSelected f) st2))))"

definition get_migrated_uids :: "config \<Rightarrow> string \<Rightarrow> state \<Rightarrow> exn + string list" where
  "get_migrated_uids C folder st = sql_select_uids folder (dest_user C) (db_file st)"

definition store_migrated_uid :: "config \<Rightarrow> string \<Rightarrow> string \<Rightarrow> state \<Rightarrow> (exn + unit) \<times> state" where
  "store_migrated_uid C folder uid st =
     (case sql_insert_or_ignore (folder, uid, dest_user C) (db_file st) of
        Inl e \<Rightarrow> (Inl e, st)
      | Inr db' \<Rightarrow> (Inr (), emit (Stored (folder, uid, dest_user C)) (st\<lparr>db_file := db'\<rparr>)))"

text \<open>\<^verbatim>\<open>b.decode()\<close> as a result: the str, or the \<^verbatim>\<open>UnicodeDecodeError\<close>.\<close>

definition decode_bytes :: "string \<Rightarrow> exn + pystr" where
  "decode_bytes b =
     (case utf8_chars b of
        None \<Rightarrow> Inl (Exception ''utf-8 codec cannot decode byte'')
      | Some s \<Rightarrow> Inr s)"

text \<open>\<^verbatim>\<open>f.decode().split('"')[-2]\<close>; the double quote is the character 0x22.\<close>

definition parse_folder :: "item \<Rightarrow> exn + string" where
  "parse_folder f =
     (case f of
        IBytes b \<Rightarrow>
          (case decode_bytes b of
             Inl e \<Rightarrow> Inl e
           | Inr s \<Rightarrow>
               (let parts = str_split_sep 0x22 s
                in if length parts \<ge> 2 then Inr (parts ! (length parts - 2))
                   else Inl (Exception ''list index out of range'')))
      | INone \<Rightarrow> Inl (Exception ''NoneType object has no attribute decode'')
      | IPair a b \<Rightarrow> Inl (Exception ''tuple object has no attribute decode''))"

fun parse_folders :: "item list \<Rightarrow> exn + string list" where
  "parse_folders [] = Inr []"
| "parse_folders (f # fs) =
     (case parse_folder f of
        Inl e \<Rightarrow> Inl e
      | Inr name \<Rightarrow> (case parse_folders fs of Inl e \<Rightarrow> Inl e | Inr names \<Rightarrow> Inr (name # names)))"

definition get_folders :: "env \<Rightarrow> state \<Rightarrow> (exn + string list) \<times> state" where
  "get_folders E st =
     (case session_call E Src ListFolders st of
        (Raise e, st1) \<Rightarrow> (Inl e, st1)
      | (Return typ folders, st1) \<Rightarrow> (parse_folders folders, st1))"

definition create_folder_try :: "env \<Rightarrow> string \<Rightarrow> state \<Rightarrow> (exn + unit) \<times> state" where
  "create_folder_try E folder st =
     (case session_call E Dst (Create folder) st of
        (Raise e, st1) \<Rightarrow> (Inl e, st1)
      | (Return typ dat, st1) \<Rightarrow> (Inr (), log Info (CreatedFolder folder) st1))"

definition create_folder :: "env \<Rightarrow> string \<Rightarrow> state \<Rightarrow> (exn + unit) \<times> state" where
  "create_folder E folder st =
     (case create_folder_try E folder st of
        (Inr u, st1) \<Rightarrow> (Inr (), st1)
      | (Inl e, st1) \<Rightarrow> (Inr (), log Info (FolderExists folder) st1))"

section \<open>Transfer of one message (\<^verbatim>\<open>migrate_message\<close>)\<close>

text \<open>\<^verbatim>\<open>msg_data[0][1]\<close> and \<^verbatim>\<open>ParseFlags(msg_data[0][0])\<close>: the first item must be a pair.\<close>

definition parse_message :: "item list \<Rightarrow> exn + (string \<times> string)" where
  "parse_message msg_data =
     (case msg_data of
        [] \<Rightarrow> Inl (Exception ''list index out of range'')
      | IPair hdr body # rest \<Rightarrow> Inr (hdr, body)
      | IBytes b # rest \<Rightarrow>
          (if length b < 2 then Inl (Exception ''index out of range'')
           else Inl (Exception ''expected string or bytes-like object''))
      | INone # rest \<Rightarrow> Inl (Exception ''NoneType object is not subscriptable''))"

text \<open>
  The body of the \<^verbatim>\<open>try\<close> block of one attempt.  Reading the subject of the message
  for the log line, after the store, is taken not to fail.
\<close>

definition transfer_once ::
  "env \<Rightarrow> config \<Rightarrow> string \<Rightarrow> string \<Rightarrow> string \<Rightarrow> state \<Rightarrow> (exn + unit) \<times> state" where
  "transfer_once E C num folder uid st =
     (case session_call E Src (Fetch num ''(RFC822 FLAGS)'') st of
        (Raise e, st1) \<Rightarrow> (Inl e, st1)
      | (Return typ msg_data, st1) \<Rightarrow>
          (case parse_message msg_data of
             Inl e \<Rightarrow> (Inl e, st1)
           | Inr (hdr, email_body) \<Rightarrow>
               (case session_call E Dst (Append folder hdr email_body) st1 of
                  (Raise e, st2) \<Rightarrow> (Inl e, st2)
                | (Return typ' dat, st2) \<Rightarrow>
                    (case store_migrated_uid C folder uid st2 of
                       (Inl e, st3) \<Rightarrow> (Inl e, st3)
                     | (Inr u, st3) \<Rightarrow> (Inr (), log Info (Migrated uid folder) st3)))))"

text \<open>What a handler decides: go on with the loop, or \<^verbatim>\<open>return False\<close>.\<close>

datatype handled = NextAttempt | ReturnFalse

text \<open>\<^verbatim>\<open>except socket.error as e\<close>.\<close>

definition on_socket_error ::
  "env \<Rightarrow> config \<Rightarrow> string \<Rightarrow> string \<Rightarrow> nat \<Rightarrow> nat \<Rightarrow> int option \<Rightarrow> string \<Rightarrow> state
     \<Rightarrow> (exn + handled) \<times> state" where
  "on_socket_error E C folder uid retries attempt errno msg st =
     (if errno = Some 54 then
        (case reconnect E C (Some folder) (log Error (ConnectionReset uid (attempt + 1) retries) st) of
           (Inl e, st1) \<Rightarrow> (Inl e, st1)
         | (Inr b, st1) \<Rightarrow> (Inr NextAttempt, sleep Backoff (2 ^ attempt) st1))
      else (Inr ReturnFalse, log Warning (SocketError uid (OSError errno msg)) st))"

text \<open>\<^verbatim>\<open>except Exception as e\<close>.\<close>

definition on_exception ::
  "env \<Rightarrow> config \<Rightarrow> string \<Rightarrow> string \<Rightarrow> nat \<Rightarrow> nat \<Rightarrow> string \<Rightarrow> state
     \<Rightarrow> (exn + handled) \<times> state" where
  "on_exception E C folder uid retries attempt msg st =
     (let st1 = log Warning (AttemptFailed (attempt + 1) retries uid (Exception msg)) st
      in if int attempt < int retries - 1 then
           (if contains ''BAD_LENGTH'' msg \<or> contains ''socket error'' msg then
              (case reconnect E C (Some folder) (log Info AttemptReconnect st1) of
                 (Inl e, st2) \<Rightarrow> (Inl e, st2)
               | (Inr b, st2) \<Rightarrow> (Inr NextAttempt, sleep Backoff (2 ^ attempt) st2))
            else (Inr NextAttempt, sleep Backoff (2 ^ attempt) st1))
         else (Inr ReturnFalse, log Error (FinalFailure uid (Exception msg)) st1))"

definition handle_failure ::
  "env \<Rightarrow> config \<Rightarrow> string \<Rightarrow> string \<Rightarrow> nat \<Rightarrow> nat \<Rightarrow> exn \<Rightarrow> state \<Rightarrow> (exn + handled) \<times> state" where
  "handle_failure E C folder uid retries attempt e st =
     (case e of
        OSError errno msg \<Rightarrow> on_socket_error E C folder uid retries attempt errno msg st
      | Exception msg \<Rightarrow> on_exception E C folder uid retries attempt msg st)"

text \<open>
  \<^verbatim>\<open>for attempt in range(retries)\<close>.  The result is \<open>Some True\<close>, \<open>Some False\<close>, or \<open>None\<close>
  when the loop ends without a \<^verbatim>\<open>return\<close>; \<open>Inl\<close> is an exception that leaves the function.
\<close>

fun attempts_loop ::
  "env \<Rightarrow> config \<Rightarrow> string \<Rightarrow> string \<Rightarrow> string \<Rightarrow> nat \<Rightarrow> nat list \<Rightarrow> state
     \<Rightarrow> (exn + bool option) \<times> state" where
  "attempts_loop E C num folder uid retries [] st = (Inr None, st)"
| "attempts_loop E C num folder uid retries (attempt # rest) st =
     (case transfer_once E C num folder uid st of
        (Inr u, st1) \<Rightarrow> (Inr (Some True), st1)
      | (Inl e, st1) \<Rightarrow>
          (case handle_failure E C folder uid retries attempt e st1 of
             (Inl e', st2) \<Rightarrow> (Inl e', st2)
           | (Inr ReturnFalse, st2) \<Rightarrow> (Inr (Some False), st2)
           | (Inr NextAttempt, st2) \<Rightarrow> attempts_loop E C num folder uid retries rest st2))"

definition migrate_message ::
  "env \<Rightarrow> config \<Rightarrow> string \<Rightarrow> string \<Rightarrow> string \<Rightarrow> nat \<Rightarrow> state \<Rightarrow> (exn + bool option) \<times> state" where
  "migrate_message E C num folder uid retries st =
     attempts_loop E C num folder uid retries [0..<retries] st"

section \<open>Folders and the whole run\<close>

definition parse_search :: "item list \<Rightarrow> exn + string list" where
  "parse_search messages =
     (case messages of
        [] \<Rightarrow> Inl (Exception ''list index out of range'')
      | IBytes b # rest \<Rightarrow> Inr (bytes_split b)
      | INone # rest \<Rightarrow> Inl (Exception ''NoneType object has no attribute split'')
      | IPair a b # rest \<Rightarrow> Inl (Exception ''tuple object has no attribute split''))"

text \<open>\<^verbatim>\<open>uid_data[0].decode().split()[2]\<close>.\<close>

definition parse_uid :: "item list \<Rightarrow> exn + string" where
  "parse_uid uid_data =
     (case uid_data of
        [] \<Rightarrow> Inl (Exception ''list index out of range'')
      | IBytes b # rest \<Rightarrow>
          (case decode_bytes b of
             Inl e \<Rightarrow> Inl e
           | Inr s \<Rightarrow>
               (let ws = str_split s
                in if length ws > 2 then Inr (ws ! 2) else Inl (Exception ''list index out of range'')))
      | INone # rest \<Rightarrow> Inl (Exception ''NoneType object has no attribute decode'')
      | IPair a b # rest \<Rightarrow> Inl (Exception ''tuple object has no attribute decode''))"

text \<open>\<^verbatim>\<open>for num in message_nums\<close>, with the default \<^verbatim>\<open>retries=3\<close> of \<open>migrate_message\<close>.\<close>

fun messages_loop ::
  "env \<Rightarrow> config \<Rightarrow> string \<Rightarrow> string list \<Rightarrow> string list \<Rightarrow> state \<Rightarrow> (exn + unit) \<times> state" where
  "messages_loop E C folder migrated_uids [] st = (Inr (), st)"
| "messages_loop E C folder migrated_uids (num # rest) st =
     (case session_call E Src (Fetch num ''(UID)'') st of
        (Raise e, st1) \<Rightarrow> (Inl e, st1)
      | (Return typ uid_data, st1) \<Rightarrow>
          (case parse_uid uid_data of
             Inl e \<Rightarrow> (Inl e, st1)
           | Inr uid \<Rightarrow>
               if uid \<in> set migrated_uids then
                 messages_loop E C folder migrated_uids rest (log Info (Skipping uid folder) st1)
               else
                 (case migrate_message E C num folder uid 3 st1 of
                    (Inl e, st2) \<Rightarrow> (Inl e, st2)
                  | (Inr success, st2) \<Rightarrow>
                      messages_loop E C folder migrated_uids rest
                        (if success = Some True then st2
                         else log Error (FailedAfterAttempts uid folder) st2))))"

definition migrate_folder_try :: "env \<Rightarrow> config \<Rightarrow> string \<Rightarrow> state \<Rightarrow> (exn + unit) \<times> state" where
  "migrate_folder_try E C folder st =
     (case session_call E Src (Select folder) st of
        (Raise e, st1) \<Rightarrow> (Inl e, st1)
      | (Return typ dat, st1) \<Rightarrow>
          (case session_call E Src Search st1 of
             (Raise e, st2) \<Rightarrow> (Inl e, st2)
           | (Return typ' messages, st2) \<Rightarrow>
               (case parse_search messages of
                  Inl e \<Rightarrow> (Inl e, st2)
                | Inr message_nums \<Rightarrow>
                    (case get_migrated_uids C folder st2 of
                       Inl e \<Rightarrow> (Inl e, st2)
                     | Inr migrated_uids \<Rightarrow>
                         (case session_call E Dst (Select folder)
                                 (log Info (Migrating folder (length message_nums)) st2) of
                            (Raise e, st3) \<Rightarrow> (Inl e, st3)
                          | (Return typ'' dat', st3) \<Rightarrow>
                              messages_loop E C folder migrated_uids message_nums st3)))))"

definition migrate_folder :: "env \<Rightarrow> config \<Rightarrow> string \<Rightarrow> state \<Rightarrow> bool \<times> state" where
  "migrate_folder E C folder st =
     (case migrate_folder_try E C folder st of
        (Inr u, st1) \<Rightarrow> (True, st1)
      | (Inl e, st1) \<Rightarrow> (False, log Error (ErrorMigratingFolder folder e) st1))"

fun folders_loop :: "env \<Rightarrow> config \<Rightarrow> string list \<Rightarrow> state \<Rightarrow> state" where
  "folders_loop E C [] st = st"
| "folders_loop E C (folder # rest) st =
     folders_loop E C rest (snd (migrate_folder E C folder (snd (create_folder E folder st))))"

text \<open>The \<^verbatim>\<open>finally\<close> block of \<open>migrate_all\<close>: the exception it raises, if any.\<close>

definition finally_logout_dest :: "env \<Rightarrow> state \<Rightarrow> exn option \<times> state" where
  "finally_logout_dest E st =
     (case self_dest st of
        None \<Rightarrow> (None, st)
      | Some d \<Rightarrow>
          (case ext E (Cmd Dst d Logout) st of
             (Raise e, st1) \<Rightarrow> (Some e, st1)
           | (Return typ dat, st1) \<Rightarrow> (None, st1)))"

definition finally_logout :: "env \<Rightarrow> state \<Rightarrow> exn option \<times> state" where
  "finally_logout E st =
     (case self_source st of
        None \<Rightarrow> finally_logout_dest E st
      | Some s \<Rightarrow>
          (case ext E (Cmd Src s Logout) st of
             (Raise e, st1) \<Rightarrow> (Some e, st1)
           | (Return typ dat, st1) \<Rightarrow> finally_logout_dest E st1))"

definition migrate_all :: "env \<Rightarrow> config \<Rightarrow> state \<Rightarrow> (exn + bool option) \<times> state" where
  "migrate_all E C st =
     (case connect E C st of
        (False, st1) \<Rightarrow> (Inr (Some False), st1)
      | (True, st1) \<Rightarrow>
          (case get_folders E st1 of
             (Inl e, st2) \<Rightarrow>
               (case finally_logout E st2 of
                  (Some e', st3) \<Rightarrow> (Inl e', st3)
                | (None, st3) \<Rightarrow> (Inl e, st3))
           | (Inr folders, st2) \<Rightarrow>
               (case finally_logout E (log Info MigrationCompleted (folders_loop E C folders st2)) of
                  (Some e', st3) \<Rightarrow> (Inl e', st3)
                | (None, st3) \<Rightarrow> (Inr None, st3))))"

section \<open>Scenarios\<close>

text \<open>The purge scenario: two rows for a@x and three rows for b@y.\<close>

definition purge_scenario :: "row list" where
  "purge_scenario =
     [(''INBOX'', ''1)'', ''a@x''), (''INBOX'', ''1)'', ''b@y''), (''Sent'', ''7)'', ''a@x''),
      (''INBOX'', ''2)'', ''b@y''), (''Sent'', ''7)'', ''b@y'')]"

text \<open>
  The folder scenario: INBOX has the messages 1, 2, 3, whose UID responses are
  \<^verbatim>\<open>1 (UID 1)\<close>, \<^verbatim>\<open>2 (UID 2)\<close>, \<^verbatim>\<open>3 (UID 3)\<close>; it is the only folder listed; every command succeeds.  The identifier
  the tool extracts is the third word of the response, so it keeps the closing
  parenthesis: \<^verbatim>\<open>1)\<close>, \<^verbatim>\<open>2)\<close>, \<^verbatim>\<open>3)\<close>.  The store already has the first two for d@x.
\<close>

text \<open>The line of the folder listing for INBOX: \<^verbatim>\<open>() "/" "INBOX"\<close>.\<close>

definition inbox_listing :: string where
  "inbox_listing =
     ''() '' @ [CHR 0x22] @ ''/'' @ [CHR 0x22] @ '' '' @ [CHR 0x22] @ ''INBOX'' @ [CHR 0x22]"

definition scenario_env :: env where
  "scenario_env tr c =
     (case c of
        Cmd sl sid (Fetch num parts) \<Rightarrow>
          (if parts = ''(UID)'' then Return ''OK'' [IBytes (num @ '' (UID '' @ num @ '')'')]
           else Return ''OK'' [IPair (num @ '' (RFC822 {6}'') (''body '' @ num), IBytes '' FLAGS ())''])
      | Cmd sl sid Search \<Rightarrow> Return ''OK'' [IBytes ''1 2 3'']
      | Cmd sl sid ListFolders \<Rightarrow> Return ''OK'' [IBytes inbox_listing]
      | Cmd sl sid other \<Rightarrow> Return ''OK'' [INone]
      | Connect host \<Rightarrow> Return ''OK'' [])"

definition scenario_config :: config where
  "scenario_config =
     \<lparr>source_host = ''imap.s'', source_user = ''s@x'', source_pass = ''p'',
      dest_host = ''imap.d'', dest_user = ''d@x'', dest_pass = ''q''\<rparr>"

definition scenario_state :: state where
  "scenario_state =
     \<lparr>self_source = Some 0, self_dest = Some 1,
      db_file = Some [(''INBOX'', ''1)'', ''d@x''), (''INBOX'', ''2)'', ''d@x'')],
      trace = [], sessions = 2\<rparr>"


fun full_fetches :: "event list \<Rightarrow> string list" where
  "full_fetches [] = []"
| "full_fetches (Ext (Cmd sl sid (Fetch num parts)) r # evs) =
     (if parts = ''(RFC822 FLAGS)'' then num # full_fetches evs else full_fetches evs)"
| "full_fetches (ev # evs) = full_fetches evs"

section \<open>Observations on traces\<close>

text \<open>
  \<open>fetched num ev\<close>: the event is a full fetch of message \<open>num\<close>, sent through
  \<^verbatim>\<open>self.source\<close>, that returned a pair first; the result is the session and the pair
  (header line, body).  \<open>appended ev\<close>: the event is an append sent through
  \<^verbatim>\<open>self.dest\<close> that returned; the result is the session, the folder, the header line
  the flags are parsed from, and the body.
\<close>

definition fetched :: "string \<Rightarrow> event \<Rightarrow> (nat \<times> string \<times> string) option" where
  "fetched num ev =
     (case ev of
        Ext (Cmd Src s (Fetch num' parts)) (Return typ (IPair hdr body # rest)) \<Rightarrow>
          if num' = num \<and> parts = ''(RFC822 FLAGS)'' then Some (s, hdr, body) else None
      | _ \<Rightarrow> None)"

definition appended :: "event \<Rightarrow> (nat \<times> string \<times> string \<times> string) option" where
  "appended ev =
     (case ev of
        Ext (Cmd Dst d (Append folder hdr body)) (Return typ dat) \<Rightarrow> Some (d, folder, hdr, body)
      | _ \<Rightarrow> None)"

text \<open>
  The two events before a \<^verbatim>\<open>Stored\<close> event for the row \<open>r\<close> are a full fetch of message
  \<open>num\<close> that returned and then an append, to the folder of \<open>r\<close>, of the header line
  and the body that this fetch returned.
\<close>

definition transfer_precedes :: "string \<Rightarrow> row \<Rightarrow> event option \<Rightarrow> event option \<Rightarrow> bool" where
  "transfer_precedes num r prev2 prev1 =
     (case prev2 of
        None \<Rightarrow> False
      | Some e2 \<Rightarrow>
          (case prev1 of
             None \<Rightarrow> False
           | Some e1 \<Rightarrow>
               (case fetched num e2 of
                  None \<Rightarrow> False
                | Some (s, hdr, body) \<Rightarrow>
                    (case appended e1 of
                       None \<Rightarrow> False
                     | Some (d, folder, hdr', body') \<Rightarrow>
                         folder = fst r \<and> hdr' = hdr \<and> body' = body))))"

text \<open>
  Every \<^verbatim>\<open>Stored\<close> event of the list is for the row \<open>r\<close> and comes immediately after
  such a fetch and append.  \<open>prev2\<close> and \<open>prev1\<close> are the two events before the list.
\<close>

fun stores_follow_transfers ::
  "string \<Rightarrow> row \<Rightarrow> event option \<Rightarrow> event option \<Rightarrow> event list \<Rightarrow> bool" where
  "stores_follow_transfers num r prev2 prev1 [] = True"
| "stores_follow_transfers num r prev2 prev1 (ev # evs) =
     ((case ev of
         Stored r' \<Rightarrow> r' = r \<and> transfer_precedes num r prev2 prev1
       | _ \<Rightarrow> True)
      \<and> stores_follow_transfers num r prev1 (Some ev) evs)"

text \<open>The store after the \<^verbatim>\<open>Stored\<close> events of a trace, replayed on a database.\<close>

fun replay_stores :: "event list \<Rightarrow> database \<Rightarrow> database" where
  "replay_stores [] d = d"
| "replay_stores (Stored r # evs) d =
     replay_stores evs (case sql_insert_or_ignore r d of Inr d' \<Rightarrow> d' | Inl e \<Rightarrow> d)"
| "replay_stores (ev # evs) d = replay_stores evs d"

fun stored_rows :: "event list \<Rightarrow> row list" where
  "stored_rows [] = []"
| "stored_rows (Stored r # evs) = r # stored_rows evs"
| "stored_rows (ev # evs) = stored_rows evs"

fun sleeps :: "event list \<Rightarrow> (sleep_site \<times> nat) list" where
  "sleeps [] = []"
| "sleeps (Sleep site n # evs) = (site, n) # sleeps evs"
| "sleeps (ev # evs) = sleeps evs"


text \<open>
  The invocations of \<open>reconnect\<close> (each sleeps its pause exactly once, and nothing else
  does) and the backoff delays, in order.
\<close>

definition reconnects :: "event list \<Rightarrow> nat" where
  "reconnects evs = length (filter (\<lambda>s. fst s = ReconnectPause) (sleeps evs))"

definition backoffs :: "event list \<Rightarrow> nat list" where
  "backoffs evs = map snd (filter (\<lambda>s. fst s = Backoff) (sleeps evs))"

text \<open>The events a step added to the trace.\<close>

definition new_events :: "state \<Rightarrow> state \<Rightarrow> event list" where
  "new_events st st' = drop (length (trace st)) (trace st')"

section \<open>Relations between the states before and after a step\<close>

text \<open>
  \<open>quiet\<close>: the step only added events to the trace, none of them \<^verbatim>\<open>Stored\<close>, and left
  the database as it was.  \<open>grows num r\<close>: the step only added events, every \<^verbatim>\<open>Stored\<close>
  among them is for \<open>r\<close> and follows the fetch of message \<open>num\<close> and the append of what
  was fetched, and the database changed by exactly these \<^verbatim>\<open>Stored\<close> events.
\<close>

definition quiet :: "state \<Rightarrow> state \<Rightarrow> bool" where
  "quiet st st' \<longleftrightarrow>
     (\<exists>evs. trace st' = trace st @ evs \<and> stored_rows evs = [] \<and> db_file st' = db_file st)"

definition grows :: "string \<Rightarrow> row \<Rightarrow> state \<Rightarrow> state \<Rightarrow> bool" where
  "grows num r st st' \<longleftrightarrow>
     (\<exists>evs. trace st' = trace st @ evs \<and> stores_follow_transfers num r None None evs
        \<and> db_file st' = replay_stores evs (db_file st))"




section \<open>Failures that are retried after a reconnect\<close>

text \<open>
  The failures after which \<open>migrate_message\<close> reconnects: a \<^verbatim>\<open>socket.error\<close> with errno
  54, or another exception whose text contains \<^verbatim>\<open>BAD_LENGTH\<close> or \<^verbatim>\<open>socket error\<close>.
  Other failures of the network are not among them: a \<^verbatim>\<open>socket.error\<close> with another errno
  or with none, as a timeout has.
\<close>

definition reconnects_after :: "exn \<Rightarrow> bool" where
  "reconnects_after e =
     (case e of
        OSError errno msg \<Rightarrow> errno = Some 54
      | Exception msg \<Rightarrow> contains ''BAD_LENGTH'' msg \<or> contains ''socket error'' msg)"

text \<open>
  From state \<open>st\<close> and attempt number \<open>attempt\<close>, the transfer fails with such a failure
  on exactly the next \<open>k\<close> attempts and succeeds on the one after: each failed attempt is
  followed by its handler, which returns, and the next attempt starts in the state the
  handler leaves.
\<close>

fun fails_then_succeeds ::
  "env \<Rightarrow> config \<Rightarrow> string \<Rightarrow> string \<Rightarrow> string \<Rightarrow> nat \<Rightarrow> nat \<Rightarrow> nat \<Rightarrow> state \<Rightarrow> bool" where
  "fails_then_succeeds E C num folder uid retries 0 attempt st =
     (case transfer_once E C num folder uid st of
        (Inr u, st1) \<Rightarrow> True
      | (Inl e, st1) \<Rightarrow> False)"
| "fails_then_succeeds E C num folder uid retries (Suc k) attempt st =
     (case transfer_once E C num folder uid st of
        (Inr u, st1) \<Rightarrow> False
      | (Inl e, st1) \<Rightarrow>
          reconnects_after e \<and>
          (case handle_failure E C folder uid retries attempt e st1 of
             (Inl e', st2) \<Rightarrow> False
           | (Inr h, st2) \<Rightarrow> fails_then_succeeds E C num folder uid retries k (Suc attempt) st2))"

text \<open>
  A flaky environment: the full fetch is reset on the first pair of sessions, meets a
  socket error on the second pair, and works from the third pair on.
\<close>

definition flaky_env :: env where
  "flaky_env tr c =
     (case c of
        Cmd sl sid (Fetch num parts) \<Rightarrow>
          (if parts = ''(UID)'' then scenario_env tr c
           else if sid < 2 then Raise (OSError (Some 54) ''Connection reset by peer'')
           else if sid < 4 then Raise (Exception ''socket error: EOF'')
           else scenario_env tr c)
      | other \<Rightarrow> scenario_env tr c)"

text \<open>The sleeps of the retries after the failed attempts with the given numbers.\<close>

definition retry_sleeps :: "nat list \<Rightarrow> (sleep_site \<times> nat) list" where
  "retry_sleeps attempts = concat (map (\<lambda>i. [(ReconnectPause, 1), (Backoff, 2 ^ i)]) attempts)"

section \<open>Failure scenarios\<close>

fun uid_fetches :: "event list \<Rightarrow> string list" where
  "uid_fetches [] = []"
| "uid_fetches (Ext (Cmd sl sid (Fetch num parts)) r # evs) =
     (if parts = ''(UID)'' then num # uid_fetches evs else uid_fetches evs)"
| "uid_fetches (ev # evs) = uid_fetches evs"

text \<open>The sessions on which a logout was issued, and the error lines of the log.\<close>

fun logouts :: "event list \<Rightarrow> nat list" where
  "logouts [] = []"
| "logouts (Ext (Cmd sl sid Logout) r # evs) = sid # logouts evs"
| "logouts (ev # evs) = logouts evs"

fun logins :: "event list \<Rightarrow> (nat \<times> bool) list" where
  "logins [] = []"
| "logins (Ext (Cmd sl sid (Login user pass)) (Return typ dat) # evs) = (sid, True) # logins evs"
| "logins (Ext (Cmd sl sid (Login user pass)) (Raise e) # evs) = (sid, False) # logins evs"
| "logins (ev # evs) = logins evs"

fun error_logs :: "event list \<Rightarrow> logmsg list" where
  "error_logs [] = []"
| "error_logs (Log Error m # evs) = m # error_logs evs"
| "error_logs (ev # evs) = error_logs evs"


text \<open>
  The scenario with an empty store, on a network that resets every full fetch and also
  the select on the seventh session object (the source session of the third reconnect).
\<close>

definition empty_store_state :: state where
  "empty_store_state = scenario_state\<lparr>db_file := Some []\<rparr>"

definition reset_env :: env where
  "reset_env tr c =
     (case c of
        Cmd sl sid (Fetch num parts) \<Rightarrow>
          (if parts = ''(UID)'' then scenario_env tr c
           else Raise (OSError (Some 54) ''Connection reset by peer''))
      | Cmd sl sid (Select folder) \<Rightarrow>
          (if sid = 6 then Raise (OSError (Some 54) ''Connection reset by peer'')
           else scenario_env tr c)
      | other \<Rightarrow> scenario_env tr c)"


text \<open>
  A run with no folders in which the logout of the source session fails, and a run in
  which the login to the destination is refused.
\<close>

definition logout_fails_env :: env where
  "logout_fails_env tr c =
     (case c of
        Cmd sl sid Logout \<Rightarrow>
          (if sid = 0 then Raise (OSError (Some 32) ''Broken pipe'') else Return ''BYE'' [])
      | Cmd sl sid ListFolders \<Rightarrow> Return ''OK'' []
      | other \<Rightarrow> scenario_env tr c)"

definition dest_login_fails_env :: env where
  "dest_login_fails_env tr c =
     (case c of
        Cmd sl sid (Login user pass) \<Rightarrow>
          (if user = ''d@x'' then Raise (Exception ''LOGIN failed'') else Return ''OK'' [])
      | other \<Rightarrow> scenario_env tr c)"



text \<open>
  A network on which the first full fetch times out (a \<^verbatim>\<open>socket.error\<close> without errno)
  and every later one works.
\<close>

definition timeout_env :: env where
  "timeout_env tr c =
     (case c of
        Cmd sl sid (Fetch num parts) \<Rightarrow>
          (if parts = ''(RFC822 FLAGS)'' \<and> full_fetches tr = [] then
             Raise (OSError None ''timed out'')
           else scenario_env tr c)
      | other \<Rightarrow> scenario_env tr c)"

section \<open>Folder name decoding: the code computes the specified pipeline\<close>

lemma replace_twice_substitute:
  "replace_chr CHR ''-'' CHR ''='' (replace_chr CHR '','' CHR ''/'' s) = substitute_spec s"
  by (simp add: replace_chr_def substitute_spec_def)

lemma startswith_strip_marker:
  "(if startswith s ''&'' then drop 1 s else s) = strip_marker_spec s"
  by (cases s) (simp_all add: strip_marker_spec_def)

lemma padding_pad_spec:
  "(if length s mod 4 \<noteq> 0 then s @ replicate (4 - length s mod 4) CHR ''='' else s) = pad_spec s"
  by (simp add: pad_spec_def)

lemma length_pad_spec: "length (pad_spec s) mod 4 = 0"
  unfolding pad_spec_def by (simp add: mod_simps) presburger

lemma decode_folder_name_try_pipeline:
  "decode_folder_name_try b64decode utf16be raw = decode_pipeline_spec b64decode utf16be raw"
  unfolding decode_folder_name_try_def decode_pipeline_spec_def Let_def
  by (simp only: replace_twice_substitute startswith_strip_marker padding_pad_spec)
     (simp split: sum.splits)

text \<open>
  Claim C7.  For every raw name, and whatever the base64 and UTF-16 decoders of the
  library do, \<open>decode_folder_name\<close> returns (it never raises): the text the specified
  pipeline yields (strip the marker, substitute, pad, base64-decode, read as UTF-16
  big-endian) when every step succeeds, and the raw name unchanged when a step
  fails.  The padded string that reaches the base64 decoder has a length that is a
  multiple of four.
\<close>

theorem decode_folder_name_refines_spec:
  "decode_folder_name b64decode utf16be raw =
     Inr (case decode_pipeline_spec b64decode utf16be raw of Inr text \<Rightarrow> text | Inl e \<Rightarrow> raw)
   \<and> length (pad_spec (substitute_spec (strip_marker_spec raw))) mod 4 = 0"
  by (simp add: decode_folder_name_def decode_folder_name_try_pipeline length_pad_spec
      split: sum.splits)

section \<open>The dedup store\<close>

lemma distinct_count_list_le_1: "distinct t \<Longrightarrow> count_list t x \<le> 1"
  by (induction t) auto

lemma apply_db_op_distinct:
  "d = Some t \<Longrightarrow> distinct t \<Longrightarrow> \<exists>t'. apply_db_op d op = Some t' \<and> distinct t'"
  by (cases op)
     (auto simp: apply_db_op_def sql_insert_or_ignore_def delete_rows_def Let_def sql_delete_dest_def
        init_db_def)

lemma foldl_apply_db_op_distinct:
  "d = Some t \<Longrightarrow> distinct t \<Longrightarrow> \<exists>t'. foldl apply_db_op d ops = Some t' \<and> distinct t'"
proof (induction ops arbitrary: d t)
  case Nil
  then show ?case by simp
next
  case (Cons op ops)
  from apply_db_op_distinct[OF Cons.prems] obtain t1 where
    "apply_db_op d op = Some t1" "distinct t1" by blast
  from Cons.IH[OF this] show ?case by simp
qed

text \<open>
  Claim C3.  After \<open>init_db\<close> and any sequence of recordings, purges and reopenings,
  the table exists and holds every (folder, uid, dest\_email) triple at most once; on
  such a table \<open>store_migrated_uid\<close> returns without an error, leaves the table as it is
  when the triple is present, and adds one row when it is absent.
\<close>

theorem store_triple_unique:
  "\<exists>t. store_history ops = Some t \<and> distinct t
     \<and> count_list t (folder, uid, dest_user C) \<le> 1
     \<and> fst (store_migrated_uid C folder uid (st\<lparr>db_file := Some t\<rparr>)) = Inr ()
     \<and> db_file (snd (store_migrated_uid C folder uid (st\<lparr>db_file := Some t\<rparr>))) =
         Some (if (folder, uid, dest_user C) \<in> set t then t
               else t @ [(folder, uid, dest_user C)])"
proof -
  obtain t where t: "store_history ops = Some t" "distinct t"
    using foldl_apply_db_op_distinct[of "init_db None" "[]" ops]
    by (auto simp: store_history_def init_db_def)
  have "count_list t (folder, uid, dest_user C) \<le> 1"
    using t(2) by (rule distinct_count_list_le_1)
  with t show ?thesis
    by (simp add: store_migrated_uid_def sql_insert_or_ignore_def emit_def)
qed

lemma delete_rows_filter:
  "\<exists>logs. delete_rows email (Some t) = Inr (Some (filter (\<lambda>r. row_dest r \<noteq> email) t), logs)"
proof (cases "sql_count_dest email t > 0")
  case True
  then show ?thesis by (simp add: delete_rows_def Let_def sql_delete_dest_def)
next
  case False
  then have "filter (\<lambda>r. row_dest r = email) t = []" by (simp add: sql_count_dest_def)
  then have "\<forall>r \<in> set t. row_dest r \<noteq> email" by (simp add: filter_empty_conv)
  then have "filter (\<lambda>r. row_dest r \<noteq> email) t = t" by simp
  with False show ?thesis by (simp add: delete_rows_def Let_def)
qed

text \<open>
  Claim C9.  \<open>delete_rows\<close> on an existing table keeps exactly the rows whose
  dest\_email differs from its argument, in their order, and returns without an error.
  On the table with two rows for a@x and three rows for b@y, purging a@x leaves exactly
  the three rows of b@y and logs the counts 2 before and 0 after.
\<close>

theorem delete_rows_frame:
  "(\<exists>logs. delete_rows email (Some t) = Inr (Some (filter (\<lambda>r. row_dest r \<noteq> email) t), logs))
   \<and> sql_count_dest ''a@x'' purge_scenario = 2
   \<and> sql_count_dest ''b@y'' purge_scenario = 3
   \<and> delete_rows ''a@x'' (Some purge_scenario) =
       Inr (Some [(''INBOX'', ''1)'', ''b@y''), (''INBOX'', ''2)'', ''b@y''), (''Sent'', ''7)'', ''b@y'')],
            [RowsBefore ''a@x'' 2, DeletedSuccessfully ''a@x'', RowsAfter ''a@x'' 0])"
proof -
  have "sql_count_dest ''a@x'' purge_scenario = 2" "sql_count_dest ''b@y'' purge_scenario = 3"
    by (simp_all add: purge_scenario_def sql_count_dest_def row_dest_def)
  moreover have "delete_rows ''a@x'' (Some purge_scenario) =
       Inr (Some [(''INBOX'', ''1)'', ''b@y''), (''INBOX'', ''2)'', ''b@y''), (''Sent'', ''7)'', ''b@y'')],
            [RowsBefore ''a@x'' 2, DeletedSuccessfully ''a@x'', RowsAfter ''a@x'' 0])"
    by (simp add: delete_rows_def purge_scenario_def sql_count_dest_def sql_delete_dest_def
        row_dest_def Let_def)
  ultimately show ?thesis using delete_rows_filter by blast
qed

section \<open>Folder creation\<close>

text \<open>
  Claim C10.  \<open>create_folder\<close> always returns and never raises, with the same value
  whether the create command succeeded or not: when the command on the destination
  session raises, whatever the error is (and also when there is no destination session),
  the only further effect is the log line "Folder already exists"; when it returns, the
  log line is "Created folder".
\<close>

theorem create_folder_never_raises:
  "fst (create_folder E folder st) = Inr ()
   \<and> (case session_call E Dst (Create folder) st of
        (Raise e, st1) \<Rightarrow>
          snd (create_folder E folder st) = log Info (FolderExists folder) st1
      | (Return typ dat, st1) \<Rightarrow>
          snd (create_folder E folder st) = log Info (CreatedFolder folder) st1)"
  by (simp add: create_folder_def create_folder_try_def split: prod.splits resp.splits sum.splits)

section \<open>Evaluating the scenarios\<close>

lemmas run_defs = migrate_message_def transfer_once_def session_call_def session_of_def ext_def
  emit_def Let_def handle_failure_def on_socket_error_def on_exception_def reconnect_def
  logout_both_ignoring_def logout_dest_ignoring_def connect_def open_ssl_def log_def sleep_def
  parse_message_def store_migrated_uid_def sql_insert_or_ignore_def migrate_folder_def
  migrate_folder_try_def parse_search_def parse_uid_def decode_bytes_def bytes_split_def
  str_split_def is_space_def is_space_cp_def continuation_def get_migrated_uids_def
  sql_select_uids_def row_dest_def

lemma upt_0_3: "[0..<3] = [0, 1, 2]"
  by (simp add: upt_rec)

section \<open>The engine on the folder scenario\<close>




section \<open>The record is written only after a returned append\<close>

lemma stored_rows_append: "stored_rows (xs @ ys) = stored_rows xs @ stored_rows ys"
  by (induction xs rule: stored_rows.induct) auto

lemma replay_stores_append: "replay_stores (xs @ ys) d = replay_stores ys (replay_stores xs d)"
  by (induction xs d rule: replay_stores.induct) auto

lemma quiet_refl: "quiet st st"
  by (simp add: quiet_def)

lemma quiet_trans: "quiet a b \<Longrightarrow> quiet b c \<Longrightarrow> quiet a c"
  by (auto simp: quiet_def stored_rows_append)

lemma quiet_emit:
  "quiet a st \<Longrightarrow> stored_rows [ev] = [] \<Longrightarrow> quiet a (emit ev st)"
  by (auto simp: quiet_def emit_def stored_rows_append)

lemma quiet_log: "quiet a st \<Longrightarrow> quiet a (log lvl m st)"
  by (simp add: log_def quiet_emit)

lemma quiet_sleep: "quiet a st \<Longrightarrow> quiet a (sleep site n st)"
  by (simp add: sleep_def quiet_emit)

lemma quiet_ext: "quiet a st \<Longrightarrow> quiet a (snd (ext E c st))"
  by (simp add: ext_def Let_def quiet_emit)

lemma quiet_session_call: "quiet a st \<Longrightarrow> quiet a (snd (session_call E sl c st))"
  by (simp add: session_call_def quiet_ext split: option.splits)

lemma quiet_upd_source: "quiet a st \<Longrightarrow> quiet a (st\<lparr>self_source := x\<rparr>)"
  by (simp add: quiet_def)

lemma quiet_upd_dest: "quiet a st \<Longrightarrow> quiet a (st\<lparr>self_dest := x\<rparr>)"
  by (simp add: quiet_def)

lemma quiet_upd_sessions: "quiet a st \<Longrightarrow> quiet a (st\<lparr>sessions := x\<rparr>)"
  by (simp add: quiet_def)

lemma quiet_open_ssl: "quiet a st \<Longrightarrow> quiet a (snd (open_ssl E host st))"
  unfolding open_ssl_def
  by (auto simp: split_beta split: resp.splits intro!: quiet_ext quiet_upd_sessions)

lemmas quiet_intros = quiet_log quiet_sleep quiet_ext quiet_session_call quiet_upd_source
  quiet_upd_dest quiet_upd_sessions quiet_open_ssl

lemma quiet_connect: "quiet a st \<Longrightarrow> quiet a (snd (connect E C st))"
  unfolding connect_def
  by (auto simp: split_beta split: sum.splits resp.splits intro!: quiet_intros)

lemma quiet_logout_dest: "quiet a st \<Longrightarrow> quiet a (logout_dest_ignoring E st)"
  unfolding logout_dest_ignoring_def
  by (auto split: option.splits intro!: quiet_intros)

lemma quiet_logout_both: "quiet a st \<Longrightarrow> quiet a (logout_both_ignoring E st)"
  unfolding logout_both_ignoring_def
  by (auto simp: split_beta split: option.splits resp.splits intro!: quiet_intros quiet_logout_dest)

lemma quiet_reconnect: "quiet a st \<Longrightarrow> quiet a (snd (reconnect E C folder st))"
  unfolding reconnect_def
  by (auto simp: split_beta split: option.splits resp.splits bool.splits
      intro!: quiet_intros quiet_logout_both quiet_connect)

lemma quiet_on_socket_error:
  "quiet a st \<Longrightarrow> quiet a (snd (on_socket_error E C folder uid retries attempt errno msg st))"
  unfolding on_socket_error_def
  by (auto simp: split_beta split: sum.splits intro!: quiet_intros quiet_reconnect)

lemma quiet_on_exception:
  "quiet a st \<Longrightarrow> quiet a (snd (on_exception E C folder uid retries attempt msg st))"
  unfolding on_exception_def Let_def
  by (auto simp: split_beta split: sum.splits intro!: quiet_intros quiet_reconnect)

lemma quiet_handle_failure:
  "quiet a st \<Longrightarrow> quiet a (snd (handle_failure E C folder uid retries attempt e st))"
  unfolding handle_failure_def
  by (auto split: exn.splits intro!: quiet_on_socket_error quiet_on_exception)

lemma sft_no_stored:
  "stored_rows evs = [] \<Longrightarrow> stores_follow_transfers num r prev2 prev1 evs"
  by (induction evs arbitrary: prev2 prev1) (auto split: event.splits)

lemma replay_no_stored: "stored_rows evs = [] \<Longrightarrow> replay_stores evs d = d"
  by (induction evs d rule: replay_stores.induct) auto

lemma sft_None_any:
  "stores_follow_transfers num r None None evs \<Longrightarrow> stores_follow_transfers num r prev2 prev1 evs"
proof (cases evs)
  case Nil
  then show ?thesis by simp
next
  case (Cons ev evs')
  assume a: "stores_follow_transfers num r None None evs"
  show ?thesis
  proof (cases evs')
    case Nil
    with a Cons show ?thesis
      by (auto simp: transfer_precedes_def split: event.splits)
  next
    case (Cons ev' evs'')
    with a \<open>evs = ev # evs'\<close> show ?thesis
      by (auto simp: transfer_precedes_def split: event.splits)
  qed
qed

lemma sft_append:
  "stores_follow_transfers num r prev2 prev1 xs \<Longrightarrow> stores_follow_transfers num r None None ys
     \<Longrightarrow> stores_follow_transfers num r prev2 prev1 (xs @ ys)"
  by (induction xs arbitrary: prev2 prev1) (auto simp: sft_None_any)

lemma quiet_grows: "quiet st st' \<Longrightarrow> grows num r st st'"
  by (auto simp: quiet_def grows_def sft_no_stored replay_no_stored)

lemma grows_trans: "grows num r a b \<Longrightarrow> grows num r b c \<Longrightarrow> grows num r a c"
  by (auto simp: grows_def sft_append replay_stores_append)

text \<open>What one attempt adds to the trace, case by case.\<close>

lemma transfer_once_cases:
  "(\<exists>s d typ hdr body rest typ' dat.
      self_source st = Some s \<and> self_dest st = Some d
      \<and> fst (transfer_once E C num folder uid st) = Inr ()
      \<and> trace (snd (transfer_once E C num folder uid st)) = trace st @
          [Ext (Cmd Src s (Fetch num ''(RFC822 FLAGS)'')) (Return typ (IPair hdr body # rest)),
           Ext (Cmd Dst d (Append folder hdr body)) (Return typ' dat),
           Stored (folder, uid, dest_user C),
           Log Info (Migrated uid folder)]
      \<and> db_file (snd (transfer_once E C num folder uid st))
          = replay_stores [Stored (folder, uid, dest_user C)] (db_file st))
   \<or> (\<exists>evs e. fst (transfer_once E C num folder uid st) = Inl e
        \<and> trace (snd (transfer_once E C num folder uid st)) = trace st @ evs
        \<and> stored_rows evs = []
        \<and> db_file (snd (transfer_once E C num folder uid st)) = db_file st)"
  unfolding transfer_once_def session_call_def session_of_def ext_def store_migrated_uid_def
    emit_def log_def parse_message_def Let_def
  by (auto split: option.splits resp.splits sum.splits prod.splits list.splits item.splits)

lemma grows_transfer_once:
  "grows num (folder, uid, dest_user C) st (snd (transfer_once E C num folder uid st))"
  using transfer_once_cases[of st E C num folder uid]
  by (auto simp: grows_def fetched_def appended_def transfer_precedes_def sft_no_stored
      replay_no_stored)

lemma grows_transfer_once':
  "grows num (folder, uid, dest_user C) a st
     \<Longrightarrow> grows num (folder, uid, dest_user C) a (snd (transfer_once E C num folder uid st))"
  using grows_transfer_once grows_trans by blast

lemma grows_handle_failure:
  "grows num r a st \<Longrightarrow> grows num r a (snd (handle_failure E C folder uid retries attempt e st))"
  using quiet_handle_failure[OF quiet_refl] quiet_grows grows_trans by blast

lemma grows_attempts_loop:
  "grows num (folder, uid, dest_user C) a st
     \<Longrightarrow> grows num (folder, uid, dest_user C) a
           (snd (attempts_loop E C num folder uid retries attempts st))"
proof (induction attempts arbitrary: st)
  case Nil
  then show ?case by simp
next
  case (Cons attempt rest)
  let ?st1 = "snd (transfer_once E C num folder uid st)"
  have g1: "grows num (folder, uid, dest_user C) a ?st1"
    using Cons.prems by (rule grows_transfer_once')
  show ?case
  proof (cases "fst (transfer_once E C num folder uid st)")
    case (Inr u)
    with g1 show ?thesis by (simp add: split_beta)
  next
    case (Inl e)
    let ?h = "handle_failure E C folder uid retries attempt e ?st1"
    have g2: "grows num (folder, uid, dest_user C) a (snd ?h)"
      using g1 by (rule grows_handle_failure)
    show ?thesis
    proof (cases "fst ?h")
      case (Inl e')
      with \<open>fst (transfer_once E C num folder uid st) = Inl e\<close> g2 show ?thesis
        by (simp add: split_beta)
    next
      case (Inr h)
      with \<open>fst (transfer_once E C num folder uid st) = Inl e\<close> g2 Cons.IH[OF g2] show ?thesis
        by (cases h) (simp_all add: split_beta)
    qed
  qed
qed






section \<open>Retry after a failure\<close>


lemma sleeps_append: "sleeps (xs @ ys) = sleeps xs @ sleeps ys"
  by (induction xs rule: sleeps.induct) auto

lemma sleeps_log: "sleeps (trace (log lvl m st)) = sleeps (trace st)"
  by (simp add: log_def emit_def sleeps_append)

lemma sleeps_sleep: "sleeps (trace (sleep site n st)) = sleeps (trace st) @ [(site, n)]"
  by (simp add: sleep_def emit_def sleeps_append)

lemma sleeps_ext: "sleeps (trace (snd (ext E c st))) = sleeps (trace st)"
  by (simp add: ext_def emit_def Let_def sleeps_append)

lemma sleeps_session_call: "sleeps (trace (snd (session_call E sl c st))) = sleeps (trace st)"
  by (simp add: session_call_def sleeps_ext split: option.splits)

lemma sleeps_open_ssl: "sleeps (trace (snd (open_ssl E host st))) = sleeps (trace st)"
  using sleeps_ext[of E "Connect host" st]
  by (auto simp: open_ssl_def split_beta split: resp.splits)

lemma sleeps_connect: "sleeps (trace (snd (connect E C st))) = sleeps (trace st)"
  unfolding connect_def
  by (simp add: split_beta sleeps_log sleeps_ext sleeps_open_ssl split: sum.splits resp.splits)

lemma sleeps_logout_dest: "sleeps (trace (logout_dest_ignoring E st)) = sleeps (trace st)"
  by (simp add: logout_dest_ignoring_def sleeps_ext split: option.splits)

lemma sleeps_logout_both: "sleeps (trace (logout_both_ignoring E st)) = sleeps (trace st)"
  by (simp add: logout_both_ignoring_def split_beta sleeps_ext sleeps_logout_dest
      split: option.splits resp.splits)

lemma sleeps_reconnect:
  "sleeps (trace (snd (reconnect E C folder st))) = sleeps (trace st) @ [(ReconnectPause, 1)]"
  unfolding reconnect_def
  by (simp add: split_beta sleeps_log sleeps_session_call sleeps_connect sleeps_sleep
      sleeps_logout_both split: option.splits resp.splits bool.splits)

lemma sleeps_transfer_once:
  "sleeps (trace (snd (transfer_once E C num folder uid st))) = sleeps (trace st)"
  unfolding transfer_once_def store_migrated_uid_def
  by (simp add: split_beta sleeps_log sleeps_session_call emit_def sleeps_append
      split: sum.splits resp.splits)

lemma handle_failure_transient:
  assumes "reconnects_after e" "int attempt < int retries - 1"
    and "fst (handle_failure E C folder uid retries attempt e st) = Inr h"
  shows "h = NextAttempt"
    and "sleeps (trace (snd (handle_failure E C folder uid retries attempt e st)))
          = sleeps (trace st) @ [(ReconnectPause, 1), (Backoff, 2 ^ attempt)]"
  using assms
  unfolding handle_failure_def on_socket_error_def on_exception_def reconnects_after_def Let_def
  by (auto simp: split_beta sleeps_sleep sleeps_reconnect sleeps_log split: exn.splits sum.splits)


lemma attempts_loop_fails_then_succeeds:
  "fails_then_succeeds E C num folder uid retries k a st \<Longrightarrow> a + k < retries \<Longrightarrow>
     fst (attempts_loop E C num folder uid retries [a..<retries] st) = Inr (Some True)
     \<and> sleeps (trace (snd (attempts_loop E C num folder uid retries [a..<retries] st)))
         = sleeps (trace st) @ retry_sleeps [a..<a + k]"
proof (induction k arbitrary: a st)
  case 0
  then have upt: "[a..<retries] = a # [Suc a..<retries]"
    by (simp add: upt_conv_Cons)
  from 0 show ?case
    unfolding upt
    by (auto simp: split_beta sleeps_transfer_once retry_sleeps_def split: sum.splits)
next
  case (Suc k)
  let ?t = "transfer_once E C num folder uid st"
  from Suc.prems(1) obtain e where e: "fst ?t = Inl e" "reconnects_after e"
    by (auto simp: split_beta split: sum.splits)
  let ?h = "handle_failure E C folder uid retries a e (snd ?t)"
  from Suc.prems(1) e obtain h where h: "fst ?h = Inr h"
    and rest: "fails_then_succeeds E C num folder uid retries k (Suc a) (snd ?h)"
    by (auto simp: split_beta split: sum.splits)
  from Suc.prems(2) have lt: "int a < int retries - 1" by simp
  from handle_failure_transient[OF e(2) lt h]
  have next_attempt: "h = NextAttempt"
    and sl: "sleeps (trace (snd ?h)) = sleeps (trace (snd ?t)) @ [(ReconnectPause, 1), (Backoff, 2 ^ a)]"
    by simp_all
  from Suc.prems(2) have upt: "[a..<retries] = a # [Suc a..<retries]"
    by (simp add: upt_conv_Cons)
  from Suc.prems(2) have upt2: "[a..<a + Suc k] = a # [Suc a..<Suc a + k]"
    by (simp add: upt_conv_Cons)
  from Suc.prems(2) have "Suc a + k < retries" by simp
  from Suc.IH[OF rest this]
  have ih: "fst (attempts_loop E C num folder uid retries [Suc a..<retries] (snd ?h)) = Inr (Some True)"
    "sleeps (trace (snd (attempts_loop E C num folder uid retries [Suc a..<retries] (snd ?h))))
       = sleeps (trace (snd ?h)) @ retry_sleeps [Suc a..<Suc a + k]"
    by simp_all
  have step: "attempts_loop E C num folder uid retries (a # [Suc a..<retries]) st
      = attempts_loop E C num folder uid retries [Suc a..<retries] (snd ?h)"
    using e(1) h next_attempt by (simp add: split_beta)
  show ?case
    unfolding upt upt2 step
    using ih sl by (simp add: sleeps_transfer_once retry_sleeps_def)
qed

lemma reconnects_retry_sleeps:
  "length (filter (\<lambda>s. fst s = ReconnectPause) (retry_sleeps xs)) = length xs"
  by (induction xs) (simp_all add: retry_sleeps_def)

lemma backoffs_retry_sleeps:
  "map snd (filter (\<lambda>s. fst s = Backoff) (retry_sleeps xs)) = map (\<lambda>i. 2 ^ i) xs"
  by (induction xs) (simp_all add: retry_sleeps_def)

lemma sorted_backoffs: "sorted_wrt (<) (map (\<lambda>i. (2::nat) ^ i) [0..<k])"
  by (simp add: sorted_wrt_map sorted_wrt_iff_nth_less)

lemma migrate_message_new_events:
  "trace (snd (migrate_message E C num folder uid retries st))
     = trace st @ new_events st (snd (migrate_message E C num folder uid retries st))"
proof -
  have "grows num (folder, uid, dest_user C) st st"
    by (simp add: grows_def)
  then have "grows num (folder, uid, dest_user C) st
      (snd (migrate_message E C num folder uid retries st))"
    unfolding migrate_message_def by (rule grows_attempts_loop)
  then show ?thesis
    by (auto simp: grows_def new_events_def)
qed

lemma socket_error_without_errno:
  "transfer_once E C num folder uid s = (Inl (OSError None msg), s1) \<Longrightarrow>
     attempts_loop E C num folder uid retries (a # rest) s
       = (Inr (Some False), log Warning (SocketError uid (OSError None msg)) s1)"
  by (simp add: handle_failure_def on_socket_error_def)

text \<open>
  Claim C4, as stated, fails for a timeout, which the specification counts among the
  transient failures.  On a network where the first full fetch times out and a second
  one would succeed, \<open>migrate_message\<close> makes one attempt only and returns False: it
  does not reconnect and does not sleep.
\<close>

theorem timeout_is_not_retried:
  "fst (transfer_once timeout_env scenario_config ''3'' ''INBOX'' ''3)'' scenario_state)
       = Inl (OSError None ''timed out'')
   \<and> fst (transfer_once timeout_env scenario_config ''3'' ''INBOX'' ''3)''
           (snd (transfer_once timeout_env scenario_config ''3'' ''INBOX'' ''3)'' scenario_state)))
       = Inr ()
   \<and> fst (migrate_message timeout_env scenario_config ''3'' ''INBOX'' ''3)'' 3 scenario_state)
       = Inr (Some False)
   \<and> new_events scenario_state
        (snd (migrate_message timeout_env scenario_config ''3'' ''INBOX'' ''3)'' 3 scenario_state))
       = [Ext (Cmd Src 0 (Fetch ''3'' ''(RFC822 FLAGS)'')) (Raise (OSError None ''timed out'')),
          Log Warning (SocketError ''3)'' (OSError None ''timed out''))]
   \<and> reconnects (new_events scenario_state
        (snd (migrate_message timeout_env scenario_config ''3'' ''INBOX'' ''3)'' 3 scenario_state)))
       = 0
   \<and> backoffs (new_events scenario_state
        (snd (migrate_message timeout_env scenario_config ''3'' ''INBOX'' ''3)'' 3 scenario_state)))
       = []"
  by (simp add: run_defs upt_0_3 timeout_env_def scenario_env_def scenario_state_def
      scenario_config_def new_events_def reconnects_def backoffs_def)

text \<open>
  Claim C4, amended.  For every \<open>k < retries\<close>: if the transfer fails on exactly its first
  \<open>k\<close> attempts, each time with a failure after which the code reconnects (a
  \<^verbatim>\<open>socket.error\<close> with errno 54, or another exception whose text contains
  \<^verbatim>\<open>BAD_LENGTH\<close> or \<^verbatim>\<open>socket error\<close>) and each time with a handler that returns, and
  succeeds on attempt \<open>k + 1\<close>, then \<open>migrate_message\<close> returns True, has invoked
  \<open>reconnect\<close> exactly \<open>k\<close> times, and has slept exactly the \<open>k\<close> backoff delays 2^0,
  2^1, ..., 2^(k-1), which increase strictly.  A \<^verbatim>\<open>socket.error\<close> without errno, as a
  timeout is, is not retried: on whichever attempt it occurs, the routine logs a warning
  and returns False at once, with no reconnect and no backoff after it.
\<close>

theorem retry_succeeds_after_reconnectable_failures:
  "(k < retries \<and> fails_then_succeeds E C num folder uid retries k 0 st \<longrightarrow>
      fst (migrate_message E C num folder uid retries st) = Inr (Some True)
      \<and> reconnects (new_events st (snd (migrate_message E C num folder uid retries st))) = k
      \<and> backoffs (new_events st (snd (migrate_message E C num folder uid retries st)))
          = map (\<lambda>i. 2 ^ i) [0..<k]
      \<and> sorted_wrt (<)
          (backoffs (new_events st (snd (migrate_message E C num folder uid retries st)))))
   \<and> (transfer_once E C num folder uid s = (Inl (OSError None msg), s1) \<longrightarrow>
        attempts_loop E C num folder uid retries (a # rest) s
          = (Inr (Some False), log Warning (SocketError uid (OSError None msg)) s1))"
proof -
  have "fst (migrate_message E C num folder uid retries st) = Inr (Some True)
      \<and> reconnects (new_events st (snd (migrate_message E C num folder uid retries st))) = k
      \<and> backoffs (new_events st (snd (migrate_message E C num folder uid retries st)))
          = map (\<lambda>i. 2 ^ i) [0..<k]
      \<and> sorted_wrt (<)
          (backoffs (new_events st (snd (migrate_message E C num folder uid retries st))))"
    if lt: "k < retries" and fts: "fails_then_succeeds E C num folder uid retries k 0 st"
  proof -
    let ?st' = "snd (migrate_message E C num folder uid retries st)"
    from attempts_loop_fails_then_succeeds[OF fts] lt
    have r: "fst (migrate_message E C num folder uid retries st) = Inr (Some True)"
      and sl: "sleeps (trace ?st') = sleeps (trace st) @ retry_sleeps [0..<k]"
      by (simp_all add: migrate_message_def)
    have "sleeps (trace ?st') = sleeps (trace st) @ sleeps (new_events st ?st')"
      using migrate_message_new_events[of E C num folder uid retries st]
      by (metis sleeps_append)
    with sl have n: "sleeps (new_events st ?st') = retry_sleeps [0..<k]"
      by simp
    show ?thesis
      using r by (simp add: reconnects_def backoffs_def n reconnects_retry_sleeps
          backoffs_retry_sleeps sorted_backoffs)
  qed
  then show ?thesis
    using socket_error_without_errno[of E C num folder uid s msg s1 retries a rest] by blast
qed

text \<open>
  Two failures the code reconnects after, then success, with three attempts allowed; and
  a timeout on the first attempt.
\<close>

lemma flaky_fails_twice:
  "fails_then_succeeds flaky_env scenario_config ''3'' ''INBOX'' ''3)'' 3 2 0 scenario_state"
proof -
  let ?t0 = "transfer_once flaky_env scenario_config ''3'' ''INBOX'' ''3)'' scenario_state"
  let ?e0 = "OSError (Some 54) ''Connection reset by peer''"
  let ?h0 = "handle_failure flaky_env scenario_config ''INBOX'' ''3)'' 3 0 ?e0 (snd ?t0)"
  let ?t1 = "transfer_once flaky_env scenario_config ''3'' ''INBOX'' ''3)'' (snd ?h0)"
  let ?e1 = "Exception ''socket error: EOF''"
  let ?h1 = "handle_failure flaky_env scenario_config ''INBOX'' ''3)'' 3 (Suc 0) ?e1 (snd ?t1)"
  let ?t2 = "transfer_once flaky_env scenario_config ''3'' ''INBOX'' ''3)'' (snd ?h1)"
  have t0: "fst ?t0 = Inl ?e0" by code_simp
  have h0: "fst ?h0 = Inr NextAttempt" by code_simp
  have t1: "fst ?t1 = Inl ?e1" by code_simp
  have h1: "fst ?h1 = Inr NextAttempt" by code_simp
  have t2: "fst ?t2 = Inr ()" by code_simp
  have tr: "reconnects_after ?e0" "reconnects_after ?e1" by (simp_all add: reconnects_after_def)
  have two: "(2::nat) = Suc (Suc 0)" by simp
  show ?thesis
    unfolding two by (simp add: split_beta t0 h0 t1 h1 t2 tr)
qed

theorem retry_succeeds_after_reconnectable_failures_witness:
  "(2::nat) < 3
   \<and> fails_then_succeeds flaky_env scenario_config ''3'' ''INBOX'' ''3)'' 3 2 0 scenario_state
   \<and> fst (migrate_message flaky_env scenario_config ''3'' ''INBOX'' ''3)'' 3 scenario_state)
       = Inr (Some True)
   \<and> reconnects (new_events scenario_state
         (snd (migrate_message flaky_env scenario_config ''3'' ''INBOX'' ''3)'' 3 scenario_state))) = 2
   \<and> backoffs (new_events scenario_state
         (snd (migrate_message flaky_env scenario_config ''3'' ''INBOX'' ''3)'' 3 scenario_state))) = [1, 2]
   \<and> transfer_once timeout_env scenario_config ''3'' ''INBOX'' ''3)'' scenario_state
       = (Inl (OSError None ''timed out''),
          snd (transfer_once timeout_env scenario_config ''3'' ''INBOX'' ''3)'' scenario_state))
   \<and> attempts_loop timeout_env scenario_config ''3'' ''INBOX'' ''3)'' 3 [0, 1, 2] scenario_state
       = (Inr (Some False),
          log Warning (SocketError ''3)'' (OSError None ''timed out''))
            (snd (transfer_once timeout_env scenario_config ''3'' ''INBOX'' ''3)'' scenario_state)))"
proof -
  have h1: "(2::nat) < 3 \<and>
      fails_then_succeeds flaky_env scenario_config ''3'' ''INBOX'' ''3)'' 3 2 0 scenario_state"
    using flaky_fails_twice by simp
  have u: "map (\<lambda>i. (2::nat) ^ i) [0..<2] = [1, 2]"
    by code_simp
  let ?t = "transfer_once timeout_env scenario_config ''3'' ''INBOX'' ''3)'' scenario_state"
  have "fst ?t = Inl (OSError None ''timed out'')"
    by (simp add: run_defs timeout_env_def scenario_env_def scenario_state_def scenario_config_def)
  then have h2: "?t = (Inl (OSError None ''timed out''), snd ?t)"
    by (simp add: prod_eq_iff)
  note a = retry_succeeds_after_reconnectable_failures[of 2 3 flaky_env scenario_config "''3''"
      "''INBOX''" "''3)''" scenario_state, THEN conjunct1, THEN mp, OF h1]
  note b = retry_succeeds_after_reconnectable_failures[of _ 3 timeout_env scenario_config "''3''"
      "''INBOX''" "''3)''" _ scenario_state "''timed out''" "snd ?t" 0 "[1, 2]",
      THEN conjunct2, THEN mp, OF h2]
  from a b h1 h2 u show ?thesis by simp
qed

section \<open>Retry exhaustion\<close>

lemma reset_run:
  "migrate_folder reset_env scenario_config ''INBOX'' empty_store_state =
     (False,
      \<lparr>self_source = Some 6, self_dest = Some 7, db_file = Some [],
       trace =
         [Ext (Cmd Src 0 (Select ''INBOX'')) (Return ''OK'' [INone]),
          Ext (Cmd Src 0 Search) (Return ''OK'' [IBytes ''1 2 3'']),
          Log Info (Migrating ''INBOX'' 3),
          Ext (Cmd Dst 1 (Select ''INBOX'')) (Return ''OK'' [INone]),
          Ext (Cmd Src 0 (Fetch ''1'' ''(UID)'')) (Return ''OK'' [IBytes ''1 (UID 1)'']),
          Ext (Cmd Src 0 (Fetch ''1'' ''(RFC822 FLAGS)''))
            (Raise (OSError (Some 54) ''Connection reset by peer'')),
          Log Error (ConnectionReset ''1)'' 1 3),
          Ext (Cmd Src 0 Logout) (Return ''OK'' [INone]),
          Ext (Cmd Dst 1 Logout) (Return ''OK'' [INone]),
          Sleep ReconnectPause 1,
          Ext (Connect ''imap.s'') (Return ''OK'' []),
          Ext (Cmd Src 2 (Login ''s@x'' ''p'')) (Return ''OK'' [INone]),
          Log Info ConnectedSource,
          Ext (Connect ''imap.d'') (Return ''OK'' []),
          Ext (Cmd Dst 3 (Login ''d@x'' ''q'')) (Return ''OK'' [INone]),
          Log Info ConnectedDest,
          Ext (Cmd Src 2 (Select ''INBOX'')) (Return ''OK'' [INone]),
          Log Info (ReSelected ''INBOX''),
          Sleep Backoff 1,
          Ext (Cmd Src 2 (Fetch ''1'' ''(RFC822 FLAGS)''))
            (Raise (OSError (Some 54) ''Connection reset by peer'')),
          Log Error (ConnectionReset ''1)'' 2 3),
          Ext (Cmd Src 2 Logout) (Return ''OK'' [INone]),
          Ext (Cmd Dst 3 Logout) (Return ''OK'' [INone]),
          Sleep ReconnectPause 1,
          Ext (Connect ''imap.s'') (Return ''OK'' []),
          Ext (Cmd Src 4 (Login ''s@x'' ''p'')) (Return ''OK'' [INone]),
          Log Info ConnectedSource,
          Ext (Connect ''imap.d'') (Return ''OK'' []),
          Ext (Cmd Dst 5 (Login ''d@x'' ''q'')) (Return ''OK'' [INone]),
          Log Info ConnectedDest,
          Ext (Cmd Src 4 (Select ''INBOX'')) (Return ''OK'' [INone]),
          Log Info (ReSelected ''INBOX''),
          Sleep Backoff 2,
          Ext (Cmd Src 4 (Fetch ''1'' ''(RFC822 FLAGS)''))
            (Raise (OSError (Some 54) ''Connection reset by peer'')),
          Log Error (ConnectionReset ''1)'' 3 3),
          Ext (Cmd Src 4 Logout) (Return ''OK'' [INone]),
          Ext (Cmd Dst 5 Logout) (Return ''OK'' [INone]),
          Sleep ReconnectPause 1,
          Ext (Connect ''imap.s'') (Return ''OK'' []),
          Ext (Cmd Src 6 (Login ''s@x'' ''p'')) (Return ''OK'' [INone]),
          Log Info ConnectedSource,
          Ext (Connect ''imap.d'') (Return ''OK'' []),
          Ext (Cmd Dst 7 (Login ''d@x'' ''q'')) (Return ''OK'' [INone]),
          Log Info ConnectedDest,
          Ext (Cmd Src 6 (Select ''INBOX''))
            (Raise (OSError (Some 54) ''Connection reset by peer'')),
          Log Error
            (ErrorMigratingFolder ''INBOX'' (OSError (Some 54) ''Connection reset by peer''))],
       sessions = 8\<rparr>)"
  by (simp add: run_defs upt_0_3 reset_env_def scenario_env_def empty_store_state_def
      scenario_state_def scenario_config_def)

text \<open>
  Claim C5 (the code departs from it).  In the empty-store scenario on the resetting
  network, message 1 fails with a connection reset (errno 54) on all three attempts.
  After the third, \<open>migrate_message\<close> still reconnects; the select of that reconnect
  raises, the exception leaves \<open>migrate_message\<close>, and \<open>migrate_folder\<close> logs
  "Error migrating folder" and returns False: messages 2 and 3 are never looked at,
  and no "Failed to migrate message" line is logged.
\<close>

theorem reset_on_last_attempt_aborts_folder:
  "fst (migrate_folder reset_env scenario_config ''INBOX'' empty_store_state) = False
   \<and> uid_fetches (trace (snd (migrate_folder reset_env scenario_config ''INBOX'' empty_store_state)))
       = [''1'']
   \<and> full_fetches (trace (snd (migrate_folder reset_env scenario_config ''INBOX'' empty_store_state)))
       = [''1'', ''1'', ''1'']
   \<and> error_logs (trace (snd (migrate_folder reset_env scenario_config ''INBOX'' empty_store_state)))
       = [ConnectionReset ''1)'' 1 3, ConnectionReset ''1)'' 2 3, ConnectionReset ''1)'' 3 3,
          ErrorMigratingFolder ''INBOX'' (OSError (Some 54) ''Connection reset by peer'')]"
  unfolding reset_run by simp

section \<open>A reconnect that fails\<close>










section \<open>Logout at the end of a run\<close>

text \<open>
  Claim C8 (the code departs from it).  In a run whose two sessions are established
  and whose source logout fails, the failure leaves \<open>migrate_all\<close> as an exception
  and the destination session is never logged out.  In a run in which the login to the
  destination is refused, \<open>migrate_all\<close> returns False and the source session, which was
  logged in, is never logged out.
\<close>

theorem logout_failure_propagates:
  "fst (migrate_all logout_fails_env scenario_config (new_migration None))
       = Inl (OSError (Some 32) ''Broken pipe'')
   \<and> logins (trace (snd (migrate_all logout_fails_env scenario_config (new_migration None))))
       = [(0, True), (1, True)]
   \<and> logouts (trace (snd (migrate_all logout_fails_env scenario_config (new_migration None))))
       = [0]
   \<and> fst (migrate_all dest_login_fails_env scenario_config (new_migration None))
       = Inr (Some False)
   \<and> logins (trace (snd (migrate_all dest_login_fails_env scenario_config (new_migration None))))
       = [(0, True), (1, False)]
   \<and> logouts (trace (snd (migrate_all dest_login_fails_env scenario_config (new_migration None))))
       = []"
  by code_simp

end
